theory Spec2Isabelle
  imports Complex_Main "HOL-Library.Word"
begin

unbundle bit_operations_syntax

section \<open>Firmware interfaces the decoders are written against\<close>

text \<open>
  The two protocol decoders (Ford and SMD3MA4) are written against the host firmware's
  sub-GHz library. Its headers are not part of the sources; the declarations below give
  the parts the decoders touch.
\<close>

text \<open>The events and states of the firmware's Manchester decoder (\<^verbatim>\<open>manchester_decoder.h\<close>).\<close>

datatype ManchesterEvent =
    ManchesterEventShortLow
  | ManchesterEventShortHigh
  | ManchesterEventLongLow
  | ManchesterEventLongHigh
  | ManchesterEventReset

datatype ManchesterState =
    ManchesterStateStart1
  | ManchesterStateMid1
  | ManchesterStateMid0
  | ManchesterStateStart0

text \<open>
  \<^verbatim>\<open>manchester_advance(state, event, &next_state, &data)\<close> is a firmware function. The
  decoders take it as a parameter of this type: the result is the returned flag
  (a bit is available), the next state and the data bit.
\<close>

type_synonym manchester_advance_fn =
  "ManchesterState \<Rightarrow> ManchesterEvent \<Rightarrow> bool \<times> ManchesterState \<times> bool"

text \<open>
  The firmware's table-driven machine, used to run the decoders on concrete inputs.
  States and events are numbered as in the firmware's enumerations; the next state is
  \<^verbatim>\<open>transitions[state] >> event & 0x3\<close>, a transition onto the same state falls
  back to the reset state \<^verbatim>\<open>ManchesterStateMid1\<close>, and a bit is produced on entering
  one of the two middle states.
\<close>

fun manchester_state_num :: "ManchesterState \<Rightarrow> nat" where
  "manchester_state_num ManchesterStateStart1 = 0"
| "manchester_state_num ManchesterStateMid1 = 1"
| "manchester_state_num ManchesterStateMid0 = 2"
| "manchester_state_num ManchesterStateStart0 = 3"

fun manchester_event_num :: "ManchesterEvent \<Rightarrow> nat" where
  "manchester_event_num ManchesterEventShortLow = 0"
| "manchester_event_num ManchesterEventShortHigh = 2"
| "manchester_event_num ManchesterEventLongLow = 4"
| "manchester_event_num ManchesterEventLongHigh = 6"
| "manchester_event_num ManchesterEventReset = 8"

definition manchester_state_of :: "8 word \<Rightarrow> ManchesterState" where
  "manchester_state_of n =
     (if n = 0 then ManchesterStateStart1
      else if n = 1 then ManchesterStateMid1
      else if n = 2 then ManchesterStateMid0
      else ManchesterStateStart0)"

definition transitions :: "8 word list" where
  "transitions = [0x01, 0x91, 0x9B, 0xFB]"

definition manchester_advance :: manchester_advance_fn where
  "manchester_advance state event =
     (if event = ManchesterEventReset then (False, ManchesterStateMid1, False)
      else
        (let new_state =
               manchester_state_of
                 (drop_bit (manchester_event_num event)
                    (transitions ! manchester_state_num state) AND 0x3)
         in if new_state = state then (False, ManchesterStateMid1, False)
            else if new_state = ManchesterStateMid0 then (True, new_state, False)
            else if new_state = ManchesterStateMid1 then (True, new_state, True)
            else (False, new_state, False)))"

text \<open>
  \<^verbatim>\<open>DURATION_DIFF(x, y)\<close> of the firmware's \<^verbatim>\<open>blocks/math.h\<close>: the absolute
  difference, computed on unsigned 32-bit values.
\<close>

definition DURATION_DIFF :: "32 word \<Rightarrow> 32 word \<Rightarrow> 32 word" where
  "DURATION_DIFF x y = (if x < y then y - x else x - y)"

text \<open>
  \<^verbatim>\<open>SubGhzBlockConst\<close>: the timing constants of a protocol. The fields are 16-bit in
  the firmware; they only occur in comparisons and differences with the 32-bit duration,
  where C converts them to 32 bits, so they are kept at that width.
\<close>

record SubGhzBlockConst =
  te_short :: "32 word"
  te_long :: "32 word"
  te_delta :: "32 word"
  min_count_bit_for_found :: "8 word"

text \<open>
  \<^verbatim>\<open>SubGhzBlockDecoder\<close>: the parser phase, the 64-bit frame register and its 8-bit bit
  count. The phase is stored as the protocol's own enumeration, the only values the
  decoders assign to it. The field \<^verbatim>\<open>te_last\<close> is left out: neither decoder touches it.
\<close>

record 'step SubGhzBlockDecoder =
  parser_step :: 'step
  decode_data :: "64 word"
  decode_count_bit :: "8 word"

text \<open>
  Modelled from the spec: \<^verbatim>\<open>subghz_protocol_blocks_add_bit\<close> is a firmware helper that
  is not among the sources. The spec's bit accumulator appends each recovered bit as the
  new least-significant bit of the 64-bit register (\<^verbatim>\<open>reg = (reg << 1) | bit\<close>) and
  increments the bit count.
\<close>

definition subghz_protocol_blocks_add_bit ::
  "'step SubGhzBlockDecoder \<Rightarrow> bool \<Rightarrow> 'step SubGhzBlockDecoder" where
  "subghz_protocol_blocks_add_bit d b =
     d\<lparr>decode_data := push_bit 1 (decode_data d) OR (if b then 1 else 0),
       decode_count_bit := decode_count_bit d + 1\<rparr>"

text \<open>
  \<^verbatim>\<open>SubGhzProtocolDecoderBase\<close>: of the base object only the callback pointer matters
  to the decoders, and only whether it is set.
\<close>

record SubGhzProtocolDecoderBase =
  callback :: bool

text \<open>
  Modelled from the spec: \<^verbatim>\<open>TPMSBlockGeneric\<close> is declared in \<^verbatim>\<open>tpms_generic.h\<close>,
  which is not among the sources. The fields are those the decoders assign and print.
  The two \<^verbatim>\<open>float\<close> fields hold the exact rational value of the C expression assigned
  to them; rounding to the floating-point format is not modelled.
\<close>

record TPMSBlockGeneric =
  protocol_name :: string
  id_field :: "32 word"
  data :: "64 word"
  data_count_bit :: "8 word"
  battery_low :: "8 word"
  pressure :: rat
  temperature :: rat

text \<open>
  Modelled from the spec: the constant \<^verbatim>\<open>TPMS_NO_BATT\<close> of \<^verbatim>\<open>tpms_generic.h\<close>, the
  marker of an unknown battery state.
\<close>

definition TPMS_NO_BATT :: "8 word" where
  "TPMS_NO_BATT = 0xFF"

text \<open>
  The decoder instance, \<^verbatim>\<open>struct TPMSProtocolDecoderFord\<close> and
  \<^verbatim>\<open>struct TPMSProtocolDecoderSMD3MA4\<close>: the two structs have the same fields.
\<close>

record 'step TPMSProtocolDecoder =
  base :: SubGhzProtocolDecoderBase
  decoder :: "'step SubGhzBlockDecoder"
  generic :: TPMSBlockGeneric
  manchester_saved_state :: ManchesterState
  header_count :: "16 word"

text \<open>
  What a call of \<^verbatim>\<open>feed\<close> does besides updating the instance: the debug log lines
  (\<^verbatim>\<open>FURI_LOG_D\<close>) and the call of the registered callback, in order. The callback is
  the host's function; it is recorded as an event and taken to leave the instance as it
  finds it.
\<close>

datatype effect =
    LogLevelDuration bool "32 word"
  | LogResetAccumulated "8 word" "64 word"
  | LogFrame "64 word"
  | LogChecksumInData "8 word"
  | LogCalculatedChecksum "8 word"
  | LogCrcMismatchDrop
  | Callback

section \<open>Operations shared by the two decoders\<close>

text \<open>
  \<^verbatim>\<open>level_and_duration_to_event\<close>: each protocol file has its own copy of this static
  function, identical but for the timing constants it names. Long is tested first.
\<close>

definition level_and_duration_to_event ::
  "SubGhzBlockConst \<Rightarrow> bool \<Rightarrow> 32 word \<Rightarrow> ManchesterEvent" where
  "level_and_duration_to_event c level duration =
     (if DURATION_DIFF duration (te_long c) < te_delta c then
        (if level then ManchesterEventLongHigh else ManchesterEventLongLow)
      else if DURATION_DIFF duration (te_short c) < te_delta c then
        (if level then ManchesterEventShortHigh else ManchesterEventShortLow)
      else ManchesterEventReset)"

section \<open>The Ford decoder\<close>

definition TPMS_PROTOCOL_FORD_NAME :: string where
  "TPMS_PROTOCOL_FORD_NAME = ''Ford TPMS''"

definition PREAMBLE_BITS_LEN_ford :: "16 word" where
  "PREAMBLE_BITS_LEN_ford = 16"

definition tpms_protocol_ford_const :: SubGhzBlockConst where
  "tpms_protocol_ford_const =
     \<lparr>te_short = 52, te_long = 104, te_delta = 150, min_count_bit_for_found = 64\<rparr>"

datatype FordDecoderStep =
    FordDecoderStepReset
  | FordDecoderStepCheckPreamble
  | FordDecoderStepDecoderData
  | FordDecoderStepSaveDuration
  | FordDecoderStepCheckDuration

type_synonym TPMSProtocolDecoderFord = "FordDecoderStep TPMSProtocolDecoder"

definition tpms_protocol_decoder_ford_reset ::
  "TPMSProtocolDecoderFord \<Rightarrow> TPMSProtocolDecoderFord" where
  "tpms_protocol_decoder_ford_reset instance =
     instance\<lparr>decoder := (decoder instance)\<lparr>parser_step := FordDecoderStepReset\<rparr>\<rparr>"

text \<open>
  \<^verbatim>\<open>tpms_protocol_ford_check_crc\<close> reads the 64-bit register through a byte pointer
  (\<^verbatim>\<open>uint8_t *b = (uint8_t *)&decode_data\<close>), so which eight bits \<^verbatim>\<open>b[i]\<close> names
  depends on the byte order of the target. The byte order is a parameter: on a
  little-endian target \<^verbatim>\<open>b[0]\<close> is the least significant byte, which holds the bits
  received last; on a big-endian target \<^verbatim>\<open>b[0]\<close> is the most significant byte, which
  holds the bits received first.
\<close>

datatype byte_order = LittleEndian | BigEndian

definition byte_at :: "byte_order \<Rightarrow> 64 word \<Rightarrow> nat \<Rightarrow> 8 word" where
  "byte_at bo w i =
     (case bo of
        LittleEndian \<Rightarrow> ucast (drop_bit (8 * i) w)
      | BigEndian \<Rightarrow> ucast (drop_bit (8 * (7 - i)) w))"

text \<open>
  The sum is computed in C's \<^verbatim>\<open>int\<close> (32 bits), masked with \<^verbatim>\<open>0xFF\<close> and stored in a
  byte. The result is the two debug lines and the verdict.
\<close>

definition tpms_protocol_ford_check_crc :: "byte_order \<Rightarrow> 64 word \<Rightarrow> effect list \<times> bool" where
  "tpms_protocol_ford_check_crc bo decode_data_v =
     (if decode_data_v = 0 then ([], False)
      else
        (let b = byte_at bo decode_data_v;
             checksum =
               (ucast
                  (((ucast (b 0) :: 32 word) + ucast (b 1) + ucast (b 2) + ucast (b 3)
                     + ucast (b 4) + ucast (b 5) + ucast (b 6)) AND 0xFF) :: 8 word)
         in ([LogChecksumInData (b 7), LogCalculatedChecksum checksum], checksum = b 7)))"

text \<open>
  \<^verbatim>\<open>tpms_protocol_ford_analyze\<close>. The subtraction of 56 is done on the unsigned 64-bit
  value and wraps around before the conversion to \<^verbatim>\<open>float\<close>.
\<close>

definition tpms_protocol_ford_analyze :: "TPMSBlockGeneric \<Rightarrow> TPMSBlockGeneric" where
  "tpms_protocol_ford_analyze instance =
     instance
       \<lparr>id_field := ucast (drop_bit 32 (data instance)),
        battery_low := TPMS_NO_BATT,
        temperature := of_nat (unat ((drop_bit 24 (data instance) AND 0xFF) - 56)),
        pressure := of_nat (unat (drop_bit 8 (data instance) AND 0xFF)) * (1 / 4) * (69 / 1000)\<rparr>"

text \<open>
  The \<^verbatim>\<open>switch\<close> statement of \<^verbatim>\<open>tpms_protocol_decoder_ford_feed\<close>, run on the
  instance as the first part of the function leaves it, with the recovered bit
  (already inverted). The enumeration's last two steps have no case.
\<close>

definition ford_feed_switch ::
  "byte_order \<Rightarrow> TPMSProtocolDecoderFord \<Rightarrow> bool \<Rightarrow> bool \<Rightarrow> 32 word
     \<Rightarrow> effect list \<times> TPMSProtocolDecoderFord" where
  "ford_feed_switch bo instance b level duration =
     (case parser_step (decoder instance) of
        FordDecoderStepReset \<Rightarrow>
          (if \<not> level \<and>
              DURATION_DIFF duration (te_long tpms_protocol_ford_const * 2)
                < te_delta tpms_protocol_ford_const
           then
             ([], instance
                \<lparr>decoder := (decoder instance)
                   \<lparr>parser_step := FordDecoderStepCheckPreamble,
                    decode_data := 0,
                    decode_count_bit := 0\<rparr>,
                 manchester_saved_state := ManchesterStateStart1\<rparr>)
           else ([], instance))
      | FordDecoderStepCheckPreamble \<Rightarrow>
          (if b then
             ([], instance\<lparr>decoder := (decoder instance)\<lparr>parser_step := FordDecoderStepReset\<rparr>\<rparr>)
           else
             (let i1 = instance\<lparr>header_count := header_count instance + 1\<rparr>
              in if header_count i1 = PREAMBLE_BITS_LEN_ford then
                   ([], i1\<lparr>decoder := (decoder i1)\<lparr>parser_step := FordDecoderStepDecoderData\<rparr>\<rparr>)
                 else ([], i1)))
      | FordDecoderStepDecoderData \<Rightarrow>
          (let i1 = instance\<lparr>decoder := subghz_protocol_blocks_add_bit (decoder instance) b\<rparr>
           in if decode_count_bit (decoder i1) = min_count_bit_for_found tpms_protocol_ford_const
              then
                (case tpms_protocol_ford_check_crc bo (decode_data (decoder i1)) of
                   (logs, ok) \<Rightarrow>
                     if \<not> ok then
                       (LogFrame (decode_data (decoder i1)) # logs @ [LogCrcMismatchDrop],
                        i1\<lparr>decoder := (decoder i1)\<lparr>parser_step := FordDecoderStepReset\<rparr>\<rparr>)
                     else
                       (let i2 = i1\<lparr>generic :=
                                  tpms_protocol_ford_analyze
                                    ((generic i1)
                                       \<lparr>data := decode_data (decoder i1),
                                        data_count_bit := decode_count_bit (decoder i1)\<rparr>)\<rparr>
                        in (LogFrame (decode_data (decoder i1)) # logs
                              @ (if callback (base i2) then [Callback] else []),
                            i2\<lparr>decoder := (decoder i2)\<lparr>parser_step := FordDecoderStepReset\<rparr>\<rparr>)))
              else ([], i1))
      | _ \<Rightarrow> ([], instance))"

text \<open>
  \<^verbatim>\<open>tpms_protocol_decoder_ford_feed\<close>. Outside the reset step the edge is classified
  first: an out-of-tolerance duration sets the step to reset and the \<^verbatim>\<open>switch\<close> then
  runs on the reset step with the same edge; otherwise the Manchester decoder advances,
  and the function returns at once when it has no bit.
\<close>

definition tpms_protocol_decoder_ford_feed ::
  "byte_order \<Rightarrow> manchester_advance_fn \<Rightarrow> TPMSProtocolDecoderFord \<Rightarrow> bool \<Rightarrow> 32 word
     \<Rightarrow> effect list \<times> TPMSProtocolDecoderFord" where
  "tpms_protocol_decoder_ford_feed bo adv instance level duration =
     (if parser_step (decoder instance) \<noteq> FordDecoderStepReset then
        (let event = level_and_duration_to_event tpms_protocol_ford_const level duration
         in if event = ManchesterEventReset then
              (let logs =
                     (if parser_step (decoder instance) = FordDecoderStepDecoderData
                         \<and> decode_count_bit (decoder instance) \<noteq> 0
                      then [LogResetAccumulated (decode_count_bit (decoder instance))
                              (decode_data (decoder instance))]
                      else []);
                   i1 = instance\<lparr>decoder := (decoder instance)\<lparr>parser_step := FordDecoderStepReset\<rparr>\<rparr>
               in case ford_feed_switch bo i1 False level duration of
                    (effs, i2) \<Rightarrow> (logs @ effs, i2))
            else
              (case adv (manchester_saved_state instance) event of
                 (have_bit, next_state, data_bit) \<Rightarrow>
                   (let i1 = instance\<lparr>manchester_saved_state := next_state\<rparr>
                    in if \<not> have_bit then ([], i1)
                       else ford_feed_switch bo i1 (\<not> data_bit) level duration)))
      else ford_feed_switch bo instance False level duration)"

section \<open>The SMD3MA4 decoder\<close>

definition TPMS_PROTOCOL_SMD3MA4_NAME :: string where
  "TPMS_PROTOCOL_SMD3MA4_NAME = ''SMD3MA4''"

definition PREAMBLE_BITS_LEN_SMD3MA4 :: "16 word" where
  "PREAMBLE_BITS_LEN_SMD3MA4 = 3"

definition tpms_protocol_SMD3MA4_const :: SubGhzBlockConst where
  "tpms_protocol_SMD3MA4_const =
     \<lparr>te_short = 120, te_long = 240, te_delta = 55, min_count_bit_for_found = 33\<rparr>"

datatype SMD3MA4DecoderStep =
    SMD3MA4DecoderStepReset
  | SMD3MA4DecoderStepCheckPreamble
  | SMD3MA4DecoderStepDecoderData
  | SMD3MA4DecoderStepSaveDuration
  | SMD3MA4DecoderStepCheckDuration

type_synonym TPMSProtocolDecoderSMD3MA4 = "SMD3MA4DecoderStep TPMSProtocolDecoder"

definition tpms_protocol_decoder_SMD3MA4_reset ::
  "TPMSProtocolDecoderSMD3MA4 \<Rightarrow> TPMSProtocolDecoderSMD3MA4" where
  "tpms_protocol_decoder_SMD3MA4_reset instance =
     instance\<lparr>decoder := (decoder instance)\<lparr>parser_step := SMD3MA4DecoderStepReset\<rparr>\<rparr>"

text \<open>
  \<^verbatim>\<open>tpms_protocol_SMD3MA4_analyze\<close>. The subtraction of 32 is done on the unsigned
  64-bit value and wraps around before the multiplication in \<^verbatim>\<open>double\<close>.
\<close>

definition tpms_protocol_SMD3MA4_analyze :: "TPMSBlockGeneric \<Rightarrow> TPMSBlockGeneric" where
  "tpms_protocol_SMD3MA4_analyze instance =
     instance
       \<lparr>id_field := ucast (drop_bit 24 (data instance)),
        battery_low := TPMS_NO_BATT,
        temperature := of_nat (unat (drop_bit 6 (data instance) AND 0xFF)),
        pressure :=
          of_nat (unat ((drop_bit 5 (data instance) AND 0xFF) - 32)) * (2 / 10) * (69 / 1000)\<rparr>"

text \<open>
  The \<^verbatim>\<open>switch\<close> statement of \<^verbatim>\<open>tpms_protocol_decoder_SMD3MA4_feed\<close>. A completed
  frame is stored and analysed without any check.
\<close>

definition SMD3MA4_feed_switch ::
  "TPMSProtocolDecoderSMD3MA4 \<Rightarrow> bool \<Rightarrow> bool \<Rightarrow> 32 word
     \<Rightarrow> effect list \<times> TPMSProtocolDecoderSMD3MA4" where
  "SMD3MA4_feed_switch instance b level duration =
     (case parser_step (decoder instance) of
        SMD3MA4DecoderStepReset \<Rightarrow>
          (if level \<and>
              DURATION_DIFF duration (te_long tpms_protocol_SMD3MA4_const * 2)
                < te_delta tpms_protocol_SMD3MA4_const
           then
             ([], instance
                \<lparr>decoder := (decoder instance)
                   \<lparr>parser_step := SMD3MA4DecoderStepCheckPreamble,
                    decode_data := 0,
                    decode_count_bit := 0\<rparr>,
                 manchester_saved_state := ManchesterStateStart1,
                 header_count := 0\<rparr>)
           else ([], instance))
      | SMD3MA4DecoderStepCheckPreamble \<Rightarrow>
          (if b then
             ([], instance\<lparr>decoder := (decoder instance)\<lparr>parser_step := SMD3MA4DecoderStepReset\<rparr>\<rparr>)
           else
             (let i1 = instance\<lparr>header_count := header_count instance + 1\<rparr>
              in if header_count i1 = PREAMBLE_BITS_LEN_SMD3MA4 then
                   ([], i1\<lparr>decoder := (decoder i1)\<lparr>parser_step := SMD3MA4DecoderStepDecoderData\<rparr>\<rparr>)
                 else ([], i1)))
      | SMD3MA4DecoderStepDecoderData \<Rightarrow>
          (let i1 = instance\<lparr>decoder := subghz_protocol_blocks_add_bit (decoder instance) b\<rparr>
           in if decode_count_bit (decoder i1)
                   = min_count_bit_for_found tpms_protocol_SMD3MA4_const
              then
                (let i2 = i1\<lparr>generic :=
                           tpms_protocol_SMD3MA4_analyze
                             ((generic i1)
                                \<lparr>data := decode_data (decoder i1),
                                 data_count_bit := decode_count_bit (decoder i1)\<rparr>)\<rparr>
                 in (LogFrame (decode_data (decoder i1))
                       # (if callback (base i2) then [Callback] else []),
                     i2\<lparr>decoder := (decoder i2)\<lparr>parser_step := SMD3MA4DecoderStepReset\<rparr>\<rparr>))
              else ([], i1))
      | _ \<Rightarrow> ([], instance))"

definition tpms_protocol_decoder_SMD3MA4_feed ::
  "manchester_advance_fn \<Rightarrow> TPMSProtocolDecoderSMD3MA4 \<Rightarrow> bool \<Rightarrow> 32 word
     \<Rightarrow> effect list \<times> TPMSProtocolDecoderSMD3MA4" where
  "tpms_protocol_decoder_SMD3MA4_feed adv instance level duration =
     (if parser_step (decoder instance) \<noteq> SMD3MA4DecoderStepReset then
        (let event = level_and_duration_to_event tpms_protocol_SMD3MA4_const level duration
         in if event = ManchesterEventReset then
              (let logs =
                     (if parser_step (decoder instance) = SMD3MA4DecoderStepDecoderData
                         \<and> decode_count_bit (decoder instance) \<noteq> 0
                      then [LogLevelDuration level duration,
                            LogResetAccumulated (decode_count_bit (decoder instance))
                              (decode_data (decoder instance))]
                      else []);
                   i1 = instance\<lparr>decoder := (decoder instance)\<lparr>parser_step := SMD3MA4DecoderStepReset\<rparr>\<rparr>
               in case SMD3MA4_feed_switch i1 False level duration of
                    (effs, i2) \<Rightarrow> (logs @ effs, i2))
            else
              (case adv (manchester_saved_state instance) event of
                 (have_bit, next_state, data_bit) \<Rightarrow>
                   (let i1 = instance\<lparr>manchester_saved_state := next_state\<rparr>
                    in if \<not> have_bit then ([], i1)
                       else SMD3MA4_feed_switch i1 (\<not> data_bit) level duration)))
      else SMD3MA4_feed_switch instance False level duration)"

section \<open>Running a decoder over a sequence of calls\<close>

text \<open>
  The calls a host makes on a decoder instance: \<^verbatim>\<open>feed\<close> with an edge, or
  \<^verbatim>\<open>reset\<close>. A reachable state is the state after some sequence of calls.
\<close>

datatype decoder_call = Feed bool "32 word" | Reset

fun ford_call ::
  "byte_order \<Rightarrow> manchester_advance_fn \<Rightarrow> TPMSProtocolDecoderFord \<Rightarrow> decoder_call
     \<Rightarrow> TPMSProtocolDecoderFord" where
  "ford_call bo adv instance (Feed level duration) =
     snd (tpms_protocol_decoder_ford_feed bo adv instance level duration)"
| "ford_call bo adv instance Reset = tpms_protocol_decoder_ford_reset instance"

definition ford_run ::
  "byte_order \<Rightarrow> manchester_advance_fn \<Rightarrow> TPMSProtocolDecoderFord \<Rightarrow> decoder_call list
     \<Rightarrow> TPMSProtocolDecoderFord" where
  "ford_run bo adv instance calls = foldl (ford_call bo adv) instance calls"

fun SMD3MA4_call ::
  "manchester_advance_fn \<Rightarrow> TPMSProtocolDecoderSMD3MA4 \<Rightarrow> decoder_call
     \<Rightarrow> TPMSProtocolDecoderSMD3MA4" where
  "SMD3MA4_call adv instance (Feed level duration) =
     snd (tpms_protocol_decoder_SMD3MA4_feed adv instance level duration)"
| "SMD3MA4_call adv instance Reset = tpms_protocol_decoder_SMD3MA4_reset instance"

definition SMD3MA4_run ::
  "manchester_advance_fn \<Rightarrow> TPMSProtocolDecoderSMD3MA4 \<Rightarrow> decoder_call list
     \<Rightarrow> TPMSProtocolDecoderSMD3MA4" where
  "SMD3MA4_run adv instance calls = foldl (SMD3MA4_call adv) instance calls"

section \<open>Allocation\<close>

text \<open>
  \<^verbatim>\<open>tpms_protocol_decoder_ford_alloc\<close> and \<^verbatim>\<open>tpms_protocol_decoder_SMD3MA4_alloc\<close>
  take a block from the allocator and set the protocol and its name; they initialise
  nothing else. The block's content is the argument. The firmware's allocator hands out
  zero-filled blocks: \<open>ford_zeroed\<close> and \<open>SMD3MA4_zeroed\<close> are such blocks (the first
  value of each enumeration is 0, a null name is the empty string).
\<close>

definition tpms_protocol_decoder_ford_alloc ::
  "TPMSProtocolDecoderFord \<Rightarrow> TPMSProtocolDecoderFord" where
  "tpms_protocol_decoder_ford_alloc block =
     block\<lparr>generic := (generic block)\<lparr>protocol_name := TPMS_PROTOCOL_FORD_NAME\<rparr>\<rparr>"

definition tpms_protocol_decoder_SMD3MA4_alloc ::
  "TPMSProtocolDecoderSMD3MA4 \<Rightarrow> TPMSProtocolDecoderSMD3MA4" where
  "tpms_protocol_decoder_SMD3MA4_alloc block =
     block\<lparr>generic := (generic block)\<lparr>protocol_name := TPMS_PROTOCOL_SMD3MA4_NAME\<rparr>\<rparr>"

definition generic_zeroed :: TPMSBlockGeneric where
  "generic_zeroed =
     \<lparr>protocol_name = [], id_field = 0, data = 0, data_count_bit = 0, battery_low = 0,
      pressure = 0, temperature = 0\<rparr>"

definition ford_zeroed :: TPMSProtocolDecoderFord where
  "ford_zeroed =
     \<lparr>base = \<lparr>callback = False\<rparr>,
      decoder = \<lparr>parser_step = FordDecoderStepReset, decode_data = 0, decode_count_bit = 0\<rparr>,
      generic = generic_zeroed,
      manchester_saved_state = ManchesterStateStart1,
      header_count = 0\<rparr>"

definition SMD3MA4_zeroed :: TPMSProtocolDecoderSMD3MA4 where
  "SMD3MA4_zeroed =
     \<lparr>base = \<lparr>callback = False\<rparr>,
      decoder = \<lparr>parser_step = SMD3MA4DecoderStepReset, decode_data = 0, decode_count_bit = 0\<rparr>,
      generic = generic_zeroed,
      manchester_saved_state = ManchesterStateStart1,
      header_count = 0\<rparr>"

section \<open>What the printing function reads\<close>

text \<open>
  \<^verbatim>\<open>tpms_protocol_decoder_ford_get_string\<close> formats five fields of the stored generic
  record; \<^verbatim>\<open>tpms_protocol_decoder_ford_serialize\<close> passes the generic record to the
  generic serialiser. The formatting itself is the firmware's \<^verbatim>\<open>printf\<close>; the model
  gives the arguments that are printed.
\<close>

definition tpms_protocol_decoder_ford_get_string ::
  "TPMSProtocolDecoderFord \<Rightarrow> string \<times> 32 word \<times> 8 word \<times> rat \<times> rat" where
  "tpms_protocol_decoder_ford_get_string instance =
     (protocol_name (generic instance),
      id_field (generic instance),
      battery_low (generic instance),
      temperature (generic instance),
      pressure (generic instance))"

section \<open>The documented Ford frame\<close>

text \<open>
  The packet layout documented in the Ford decoder is \<^verbatim>\<open>II II II II PP TT FF CC\<close>, the
  ID first. Bits are shifted into the register from the right, so the byte received
  first is the most significant one: byte \<open>i\<close> of the frame, in transmission order,
  is \<open>frame_byte w i\<close>. The documented checksum is the sum of bytes 0 to 6 against
  byte 7; \<open>checksum_in_memory_order\<close> is the same sum over the bytes as the register
  lies in memory.
\<close>

definition frame_byte :: "64 word \<Rightarrow> nat \<Rightarrow> 8 word" where
  "frame_byte w i = ucast (drop_bit (8 * (7 - i)) w)"

definition checksum_in_transmission_order :: "64 word \<Rightarrow> bool" where
  "checksum_in_transmission_order w =
     ((unat (frame_byte w 0) + unat (frame_byte w 1) + unat (frame_byte w 2)
        + unat (frame_byte w 3) + unat (frame_byte w 4) + unat (frame_byte w 5)
        + unat (frame_byte w 6)) mod 256
      = unat (frame_byte w 7))"

definition checksum_in_memory_order :: "byte_order \<Rightarrow> 64 word \<Rightarrow> bool" where
  "checksum_in_memory_order bo w =
     ((unat (byte_at bo w 0) + unat (byte_at bo w 1) + unat (byte_at bo w 2)
        + unat (byte_at bo w 3) + unat (byte_at bo w 4) + unat (byte_at bo w 5)
        + unat (byte_at bo w 6)) mod 256
      = unat (byte_at bo w 7))"

section \<open>Example instances\<close>

text \<open>
  A record as a previous frame left it: the frame \<^verbatim>\<open>3900000038000001\<close> analysed by
  \<open>tpms_protocol_ford_analyze\<close>.
\<close>

definition generic_earlier :: TPMSBlockGeneric where
  "generic_earlier =
     \<lparr>protocol_name = TPMS_PROTOCOL_FORD_NAME, id_field = 0x39000000,
      data = 0x3900000038000001, data_count_bit = 64, battery_low = 0xFF,
      pressure = 0, temperature = 0\<rparr>"

text \<open>
  A Ford decoder that has taken the preamble and 63 bits of a frame; the last bit is
  outstanding. The 63 bits, the Manchester state and the callback are left open. The
  frame \<^verbatim>\<open>124C000064500012\<close> (ID \<^verbatim>\<open>124C0000\<close>, pressure byte \<^verbatim>\<open>64\<close>, temperature
  byte \<^verbatim>\<open>50\<close>, flags \<^verbatim>\<open>00\<close>, checksum \<^verbatim>\<open>12\<close>) without its last bit is
  \<^verbatim>\<open>0926000032280009\<close>. The state is written down, not reached by a run: with the
  firmware's Manchester machine the Ford decoder never gets past the preamble check
  (lemma \<open>ford_never_collects\<close>).
\<close>

definition ford_last_bit_pending ::
  "64 word \<Rightarrow> ManchesterState \<Rightarrow> bool \<Rightarrow> TPMSProtocolDecoderFord" where
  "ford_last_bit_pending bits ms cb =
     \<lparr>base = \<lparr>callback = cb\<rparr>,
      decoder = \<lparr>parser_step = FordDecoderStepDecoderData,
                 decode_data = bits, decode_count_bit = 63\<rparr>,
      generic = generic_earlier,
      manchester_saved_state = ms,
      header_count = 16\<rparr>"

text \<open>An SMD3MA4 decoder with 32 bits of a frame taken and the last bit outstanding.\<close>

definition SMD3MA4_last_bit_pending ::
  "ManchesterState \<Rightarrow> bool \<Rightarrow> TPMSProtocolDecoderSMD3MA4" where
  "SMD3MA4_last_bit_pending ms cb =
     \<lparr>base = \<lparr>callback = cb\<rparr>,
      decoder = \<lparr>parser_step = SMD3MA4DecoderStepDecoderData,
                 decode_data = 0x098E08EB, decode_count_bit = 32\<rparr>,
      generic = generic_zeroed\<lparr>protocol_name := TPMS_PROTOCOL_SMD3MA4_NAME\<rparr>,
      manchester_saved_state = ms,
      header_count = 3\<rparr>"

text \<open>
  An edge sequence for SMD3MA4: the 480 us high sync pulse, five short edges that give
  the three zero bits of the preamble, and 32 long edges that give the bits
  \<^verbatim>\<open>1010...10\<close>.
\<close>

definition SMD3MA4_example_edges :: "decoder_call list" where
  "SMD3MA4_example_edges =
     [Feed True 480, Feed False 120, Feed True 120, Feed False 120, Feed True 120,
      Feed False 120]
     @ concat (replicate 16 [Feed True 240, Feed False 240])"


section \<open>The phases a Ford decoder takes\<close>

text \<open>
  The decoder is idle, or it checks the preamble with the Manchester machine in its start
  state or in the state it falls back to.
\<close>

definition ford_preamble_inv :: "TPMSProtocolDecoderFord \<Rightarrow> bool" where
  "ford_preamble_inv s =
     (parser_step (decoder s) = FordDecoderStepReset
      \<or> (parser_step (decoder s) = FordDecoderStepCheckPreamble
         \<and> (manchester_saved_state s = ManchesterStateStart1
            \<or> manchester_saved_state s = ManchesterStateMid1)))"

section \<open>The bit-count invariant\<close>

text \<open>
  The bit count is at most the frame length, and strictly below it while the decoder is
  checking the preamble or collecting data. Comparison on words is unsigned.
\<close>

definition ford_count_inv :: "TPMSProtocolDecoderFord \<Rightarrow> bool" where
  "ford_count_inv s =
     (decode_count_bit (decoder s) \<le> 64
      \<and> (parser_step (decoder s) = FordDecoderStepReset
         \<or> parser_step (decoder s) = FordDecoderStepSaveDuration
         \<or> parser_step (decoder s) = FordDecoderStepCheckDuration
         \<or> decode_count_bit (decoder s) < 64))"

definition SMD3MA4_count_inv :: "TPMSProtocolDecoderSMD3MA4 \<Rightarrow> bool" where
  "SMD3MA4_count_inv s =
     (decode_count_bit (decoder s) \<le> 33
      \<and> (parser_step (decoder s) = SMD3MA4DecoderStepReset
         \<or> parser_step (decoder s) = SMD3MA4DecoderStepSaveDuration
         \<or> parser_step (decoder s) = SMD3MA4DecoderStepCheckDuration
         \<or> decode_count_bit (decoder s) < 33))"

section \<open>Timing classification\<close>

text \<open>On unsigned words \<open>DURATION_DIFF\<close> is the absolute difference: nothing wraps.\<close>

lemma DURATION_DIFF_abs: "uint (DURATION_DIFF x y) = \<bar>uint x - uint y\<bar>"
  by (auto simp: DURATION_DIFF_def word_less_def uint_sub_if' word_le_def not_less)

text \<open>
  Claim C7. For every duration \<open>d\<close> and every profile \<open>c\<close>, the classification is Long
  if \<open>|d - long| < tolerance\<close>, otherwise Short if \<open>|d - short| < tolerance\<close>, otherwise
  the Manchester reset event; the level selects the High or the Low event. Long is tested
  first, so a duration inside both windows is Long.
\<close>

theorem classification_long_before_short:
  "level_and_duration_to_event c level d =
     (if \<bar>uint d - uint (te_long c)\<bar> < uint (te_delta c) then
        (if level then ManchesterEventLongHigh else ManchesterEventLongLow)
      else if \<bar>uint d - uint (te_short c)\<bar> < uint (te_delta c) then
        (if level then ManchesterEventShortHigh else ManchesterEventShortLow)
      else ManchesterEventReset)"
  by (simp add: level_and_duration_to_event_def word_less_def DURATION_DIFF_abs)

text \<open>
  With the Ford constants a high pulse of 100 us lies inside both windows and is
  classified Long.
\<close>

theorem classification_long_before_short_witness:
  "\<bar>uint (100 :: 32 word) - uint (te_long tpms_protocol_ford_const)\<bar>
      < uint (te_delta tpms_protocol_ford_const)
   \<and> \<bar>uint (100 :: 32 word) - uint (te_short tpms_protocol_ford_const)\<bar>
      < uint (te_delta tpms_protocol_ford_const)
   \<and> level_and_duration_to_event tpms_protocol_ford_const True 100 = ManchesterEventLongHigh"
  using classification_long_before_short [of tpms_protocol_ford_const True 100]
  by (simp add: tpms_protocol_ford_const_def)

section \<open>Example runs\<close>

text \<open>
  A fresh SMD3MA4 decoder run over the example edges holds 32 bits; the next long high
  edge completes the frame \<^verbatim>\<open>155555555\<close>. A \<^verbatim>\<open>reset()\<close> instead leaves the 32 bits
  in place, and the sync pulse after it starts a new preamble check.
\<close>

lemma SMD3MA4_example_run:
  "SMD3MA4_run manchester_advance (tpms_protocol_decoder_SMD3MA4_alloc SMD3MA4_zeroed)
     SMD3MA4_example_edges
   = \<lparr>base = \<lparr>callback = False\<rparr>,
      decoder = \<lparr>parser_step = SMD3MA4DecoderStepDecoderData,
                 decode_data = 0xAAAAAAAA, decode_count_bit = 32\<rparr>,
      generic = generic_zeroed\<lparr>protocol_name := TPMS_PROTOCOL_SMD3MA4_NAME\<rparr>,
      manchester_saved_state = ManchesterStateMid1,
      header_count = 3\<rparr>"
  by code_simp

lemma SMD3MA4_example_last_bit:
  "tpms_protocol_decoder_SMD3MA4_feed manchester_advance
     (SMD3MA4_run manchester_advance (tpms_protocol_decoder_SMD3MA4_alloc SMD3MA4_zeroed)
        SMD3MA4_example_edges) True 240
   = ([LogFrame 0x155555555],
      \<lparr>base = \<lparr>callback = False\<rparr>,
       decoder = \<lparr>parser_step = SMD3MA4DecoderStepReset,
                  decode_data = 0x155555555, decode_count_bit = 33\<rparr>,
       generic = tpms_protocol_SMD3MA4_analyze
                   (generic_zeroed\<lparr>protocol_name := TPMS_PROTOCOL_SMD3MA4_NAME,
                      data := 0x155555555, data_count_bit := 33\<rparr>),
       manchester_saved_state = ManchesterStateMid0,
       header_count = 3\<rparr>)"
  by code_simp

lemma SMD3MA4_example_reset:
  "tpms_protocol_decoder_SMD3MA4_reset
     (SMD3MA4_run manchester_advance (tpms_protocol_decoder_SMD3MA4_alloc SMD3MA4_zeroed)
        SMD3MA4_example_edges)
   = \<lparr>base = \<lparr>callback = False\<rparr>,
      decoder = \<lparr>parser_step = SMD3MA4DecoderStepReset,
                 decode_data = 0xAAAAAAAA, decode_count_bit = 32\<rparr>,
      generic = generic_zeroed\<lparr>protocol_name := TPMS_PROTOCOL_SMD3MA4_NAME\<rparr>,
      manchester_saved_state = ManchesterStateMid1,
      header_count = 3\<rparr>"
  by code_simp




section \<open>Reset\<close>

text \<open>
  Claim C6, as the code has it. For both protocols and every decoder state,
  \<^verbatim>\<open>reset()\<close> forces the phase to Idle and changes nothing else: the frame register,
  the bit count, the stored record, the Manchester state, the preamble counter and the
  base keep their values. Calling \<^verbatim>\<open>reset()\<close> twice leaves the decoder in the same
  state as calling it once. The register and the count are cleared when the next sync
  mark is matched (a low gap for Ford, a high pulse for SMD3MA4), not by \<^verbatim>\<open>reset()\<close>.
\<close>

theorem reset_sets_phase_only:
  "parser_step (decoder (tpms_protocol_decoder_ford_reset f)) = FordDecoderStepReset
   \<and> decode_data (decoder (tpms_protocol_decoder_ford_reset f)) = decode_data (decoder f)
   \<and> decode_count_bit (decoder (tpms_protocol_decoder_ford_reset f))
        = decode_count_bit (decoder f)
   \<and> generic (tpms_protocol_decoder_ford_reset f) = generic f
   \<and> manchester_saved_state (tpms_protocol_decoder_ford_reset f) = manchester_saved_state f
   \<and> header_count (tpms_protocol_decoder_ford_reset f) = header_count f
   \<and> base (tpms_protocol_decoder_ford_reset f) = base f
   \<and> tpms_protocol_decoder_ford_reset (tpms_protocol_decoder_ford_reset f)
        = tpms_protocol_decoder_ford_reset f
   \<and> parser_step (decoder (tpms_protocol_decoder_SMD3MA4_reset m)) = SMD3MA4DecoderStepReset
   \<and> decode_data (decoder (tpms_protocol_decoder_SMD3MA4_reset m)) = decode_data (decoder m)
   \<and> decode_count_bit (decoder (tpms_protocol_decoder_SMD3MA4_reset m))
        = decode_count_bit (decoder m)
   \<and> generic (tpms_protocol_decoder_SMD3MA4_reset m) = generic m
   \<and> manchester_saved_state (tpms_protocol_decoder_SMD3MA4_reset m)
        = manchester_saved_state m
   \<and> header_count (tpms_protocol_decoder_SMD3MA4_reset m) = header_count m
   \<and> base (tpms_protocol_decoder_SMD3MA4_reset m) = base m
   \<and> tpms_protocol_decoder_SMD3MA4_reset (tpms_protocol_decoder_SMD3MA4_reset m)
        = tpms_protocol_decoder_SMD3MA4_reset m
   \<and> (\<not> level
        \<and> \<bar>uint d - 2 * uint (te_long tpms_protocol_ford_const)\<bar>
            < uint (te_delta tpms_protocol_ford_const)
       \<longrightarrow> decode_data (decoder (snd (tpms_protocol_decoder_ford_feed bo adv
               (tpms_protocol_decoder_ford_reset f) level d))) = 0
           \<and> decode_count_bit (decoder (snd (tpms_protocol_decoder_ford_feed bo adv
               (tpms_protocol_decoder_ford_reset f) level d))) = 0)
   \<and> (mlevel
        \<and> \<bar>uint md - 2 * uint (te_long tpms_protocol_SMD3MA4_const)\<bar>
            < uint (te_delta tpms_protocol_SMD3MA4_const)
       \<longrightarrow> decode_data (decoder (snd (tpms_protocol_decoder_SMD3MA4_feed adv
               (tpms_protocol_decoder_SMD3MA4_reset m) mlevel md))) = 0
           \<and> decode_count_bit (decoder (snd (tpms_protocol_decoder_SMD3MA4_feed adv
               (tpms_protocol_decoder_SMD3MA4_reset m) mlevel md))) = 0)"
  by (simp add: tpms_protocol_decoder_ford_reset_def tpms_protocol_decoder_SMD3MA4_reset_def
      tpms_protocol_decoder_ford_feed_def ford_feed_switch_def
      tpms_protocol_decoder_SMD3MA4_feed_def SMD3MA4_feed_switch_def
      tpms_protocol_ford_const_def tpms_protocol_SMD3MA4_const_def
      word_less_def DURATION_DIFF_abs)

text \<open>
  The SMD3MA4 decoder that has taken 32 bits from the example edges: \<^verbatim>\<open>reset()\<close>
  leaves the 32 bits in place, and the sync pulse after it clears them. A fresh Ford
  decoder after \<^verbatim>\<open>reset()\<close> and the sync gap has a zero bit count.
\<close>

theorem reset_sets_phase_only_witness:
  "parser_step (decoder (tpms_protocol_decoder_SMD3MA4_reset
      (SMD3MA4_run manchester_advance (tpms_protocol_decoder_SMD3MA4_alloc SMD3MA4_zeroed)
         SMD3MA4_example_edges))) = SMD3MA4DecoderStepReset
   \<and> decode_data (decoder (tpms_protocol_decoder_SMD3MA4_reset
      (SMD3MA4_run manchester_advance (tpms_protocol_decoder_SMD3MA4_alloc SMD3MA4_zeroed)
         SMD3MA4_example_edges))) = 0xAAAAAAAA
   \<and> decode_count_bit (decoder (tpms_protocol_decoder_SMD3MA4_reset
      (SMD3MA4_run manchester_advance (tpms_protocol_decoder_SMD3MA4_alloc SMD3MA4_zeroed)
         SMD3MA4_example_edges))) = 32
   \<and> \<bar>uint (480 :: 32 word) - 2 * uint (te_long tpms_protocol_SMD3MA4_const)\<bar>
        < uint (te_delta tpms_protocol_SMD3MA4_const)
   \<and> decode_data (decoder (snd (tpms_protocol_decoder_SMD3MA4_feed manchester_advance
        (tpms_protocol_decoder_SMD3MA4_reset
           (SMD3MA4_run manchester_advance
              (tpms_protocol_decoder_SMD3MA4_alloc SMD3MA4_zeroed) SMD3MA4_example_edges))
        True 480))) = 0
   \<and> decode_count_bit (decoder (snd (tpms_protocol_decoder_SMD3MA4_feed manchester_advance
        (tpms_protocol_decoder_SMD3MA4_reset
           (SMD3MA4_run manchester_advance
              (tpms_protocol_decoder_SMD3MA4_alloc SMD3MA4_zeroed) SMD3MA4_example_edges))
        True 480))) = 0
   \<and> \<bar>uint (208 :: 32 word) - 2 * uint (te_long tpms_protocol_ford_const)\<bar>
        < uint (te_delta tpms_protocol_ford_const)
   \<and> decode_count_bit (decoder (snd (tpms_protocol_decoder_ford_feed LittleEndian
        manchester_advance
        (tpms_protocol_decoder_ford_reset (tpms_protocol_decoder_ford_alloc ford_zeroed))
        False 208))) = 0"
proof -
  have w: "\<bar>uint (480 :: 32 word) - 2 * uint (te_long tpms_protocol_SMD3MA4_const)\<bar>
             < uint (te_delta tpms_protocol_SMD3MA4_const)"
    by (simp add: tpms_protocol_SMD3MA4_const_def)
  have v: "\<bar>uint (208 :: 32 word) - 2 * uint (te_long tpms_protocol_ford_const)\<bar>
             < uint (te_delta tpms_protocol_ford_const)"
    by (simp add: tpms_protocol_ford_const_def)
  have r: "decode_data (decoder (SMD3MA4_run manchester_advance
               (tpms_protocol_decoder_SMD3MA4_alloc SMD3MA4_zeroed) SMD3MA4_example_edges))
             = 0xAAAAAAAA
           \<and> decode_count_bit (decoder (SMD3MA4_run manchester_advance
               (tpms_protocol_decoder_SMD3MA4_alloc SMD3MA4_zeroed) SMD3MA4_example_edges))
             = 32"
    by (simp add: SMD3MA4_example_run)
  note t = reset_sets_phase_only
      [where f = "tpms_protocol_decoder_ford_alloc ford_zeroed"
         and m = "SMD3MA4_run manchester_advance
                    (tpms_protocol_decoder_SMD3MA4_alloc SMD3MA4_zeroed) SMD3MA4_example_edges"
         and bo = LittleEndian and adv = manchester_advance
         and level = False and d = 208 and mlevel = True and md = 480]
  show ?thesis
    using t w v r by simp
qed

text \<open>
  Claim C6 as stated fails: after \<^verbatim>\<open>reset()\<close> on that SMD3MA4 decoder the frame
  register is not empty and the bit count is not zero.
\<close>

theorem reset_clears_buffers_counterexample:
  "\<not> (decode_data (decoder (tpms_protocol_decoder_SMD3MA4_reset
          (SMD3MA4_run manchester_advance
             (tpms_protocol_decoder_SMD3MA4_alloc SMD3MA4_zeroed) SMD3MA4_example_edges))) = 0
      \<and> decode_count_bit (decoder (tpms_protocol_decoder_SMD3MA4_reset
          (SMD3MA4_run manchester_advance
             (tpms_protocol_decoder_SMD3MA4_alloc SMD3MA4_zeroed) SMD3MA4_example_edges))) = 0)"
  by (simp add: SMD3MA4_example_reset)

section \<open>Leaving the idle phase\<close>

text \<open>
  Claim C5, as the code has it. In the Idle phase the Ford decoder leaves Idle for the
  preamble check exactly when the edge is low and its duration is within the tolerance
  (150 us) of twice the long pulse (208 us); the SMD3MA4 decoder leaves Idle exactly when
  the edge is high and its duration is within the tolerance (55 us) of twice the long
  pulse (480 us). Any other edge received in Idle leaves the phase at Idle.
\<close>

theorem idle_leaves_on_sync_gap:
  assumes "parser_step (decoder f) = FordDecoderStepReset"
      and "parser_step (decoder m) = SMD3MA4DecoderStepReset"
  shows "(parser_step (decoder (snd (tpms_protocol_decoder_ford_feed bo adv f level d)))
            = (if \<not> level
                  \<and> \<bar>uint d - 2 * uint (te_long tpms_protocol_ford_const)\<bar>
                      < uint (te_delta tpms_protocol_ford_const)
               then FordDecoderStepCheckPreamble else FordDecoderStepReset))
       \<and> (parser_step (decoder (snd (tpms_protocol_decoder_SMD3MA4_feed adv m level d)))
            = (if level
                  \<and> \<bar>uint d - 2 * uint (te_long tpms_protocol_SMD3MA4_const)\<bar>
                      < uint (te_delta tpms_protocol_SMD3MA4_const)
               then SMD3MA4DecoderStepCheckPreamble else SMD3MA4DecoderStepReset))"
  using assms
  by (simp add: tpms_protocol_decoder_ford_feed_def ford_feed_switch_def
      tpms_protocol_decoder_SMD3MA4_feed_def SMD3MA4_feed_switch_def
      tpms_protocol_ford_const_def tpms_protocol_SMD3MA4_const_def
      word_less_def DURATION_DIFF_abs)

text \<open>
  Freshly allocated decoders are idle; a low gap of 208 us starts the Ford preamble check
  and a high pulse of 480 us starts the SMD3MA4 one.
\<close>

theorem idle_leaves_on_sync_gap_witness:
  "parser_step (decoder (tpms_protocol_decoder_ford_alloc ford_zeroed)) = FordDecoderStepReset
   \<and> parser_step (decoder (tpms_protocol_decoder_SMD3MA4_alloc SMD3MA4_zeroed))
        = SMD3MA4DecoderStepReset
   \<and> parser_step (decoder (snd (tpms_protocol_decoder_ford_feed LittleEndian manchester_advance
        (tpms_protocol_decoder_ford_alloc ford_zeroed) False 208)))
        = FordDecoderStepCheckPreamble
   \<and> parser_step (decoder (snd (tpms_protocol_decoder_SMD3MA4_feed manchester_advance
        (tpms_protocol_decoder_SMD3MA4_alloc SMD3MA4_zeroed) True 480)))
        = SMD3MA4DecoderStepCheckPreamble"
  using idle_leaves_on_sync_gap [of "tpms_protocol_decoder_ford_alloc ford_zeroed"
      "tpms_protocol_decoder_SMD3MA4_alloc SMD3MA4_zeroed" LittleEndian manchester_advance
      False 208]
    idle_leaves_on_sync_gap [of "tpms_protocol_decoder_ford_alloc ford_zeroed"
      "tpms_protocol_decoder_SMD3MA4_alloc SMD3MA4_zeroed" LittleEndian manchester_advance
      True 480]
  by (simp add: tpms_protocol_decoder_ford_alloc_def ford_zeroed_def
      tpms_protocol_decoder_SMD3MA4_alloc_def SMD3MA4_zeroed_def
      tpms_protocol_ford_const_def tpms_protocol_SMD3MA4_const_def)

text \<open>
  Claim C5 as stated fails for SMD3MA4: an idle decoder that receives a low edge of
  480 us, which is within tolerance of twice the long pulse, stays in Idle.
\<close>

theorem idle_low_gap_counterexample:
  "parser_step (decoder (tpms_protocol_decoder_SMD3MA4_alloc SMD3MA4_zeroed))
      = SMD3MA4DecoderStepReset
   \<and> DURATION_DIFF 480 (te_long tpms_protocol_SMD3MA4_const * 2)
      < te_delta tpms_protocol_SMD3MA4_const
   \<and> parser_step (decoder (snd (tpms_protocol_decoder_SMD3MA4_feed manchester_advance
        (tpms_protocol_decoder_SMD3MA4_alloc SMD3MA4_zeroed) False 480)))
      = SMD3MA4DecoderStepReset"
  by (simp add: tpms_protocol_decoder_SMD3MA4_feed_def SMD3MA4_feed_switch_def
      tpms_protocol_SMD3MA4_const_def tpms_protocol_decoder_SMD3MA4_alloc_def SMD3MA4_zeroed_def
      DURATION_DIFF_def)

section \<open>Evaluating the Manchester machine and the classifier\<close>

lemma manchester_advance_Mid0_LongLow:
  "manchester_advance ManchesterStateMid0 ManchesterEventLongLow
     = (True, ManchesterStateMid1, True)"
  by code_simp

lemma manchester_advance_Mid1_LongHigh:
  "manchester_advance ManchesterStateMid1 ManchesterEventLongHigh
     = (True, ManchesterStateMid0, False)"
  by code_simp

lemma ford_LongHigh:
  "level_and_duration_to_event tpms_protocol_ford_const True 104 = ManchesterEventLongHigh"
  by (simp add: level_and_duration_to_event_def tpms_protocol_ford_const_def DURATION_DIFF_def)

lemma SMD3MA4_LongLow:
  "level_and_duration_to_event tpms_protocol_SMD3MA4_const False 240 = ManchesterEventLongLow"
  by (simp add: level_and_duration_to_event_def tpms_protocol_SMD3MA4_const_def
      DURATION_DIFF_def)

section \<open>The Ford checksum\<close>

text \<open>
  The sum of seven bytes taken in C's \<^verbatim>\<open>int\<close>, masked and stored in a byte, is the
  sum of their values modulo 256.
\<close>

lemma byte_sum_masked:
  fixes b0 b1 b2 b3 b4 b5 b6 :: "8 word"
  shows "unat (ucast (((ucast b0 :: 32 word) + ucast b1 + ucast b2 + ucast b3
                   + ucast b4 + ucast b5 + ucast b6) AND 0xFF) :: 8 word)
         = (unat b0 + unat b1 + unat b2 + unat b3 + unat b4 + unat b5 + unat b6) mod 256"
proof -
  have lt: "unat b < 256" for b :: "8 word"
    using unsigned_less [of b, where 'a = nat] by simp
  have up: "unat (ucast b :: 32 word) = unat b" for b :: "8 word"
    using lt [of b] by (simp add: unsigned_ucast_eq take_bit_nat_eq_self)
  let ?S = "(ucast b0 :: 32 word) + ucast b1 + ucast b2 + ucast b3 + ucast b4 + ucast b5
              + ucast b6"
  have S: "unat ?S = unat b0 + unat b1 + unat b2 + unat b3 + unat b4 + unat b5 + unat b6"
    using lt [of b0] lt [of b1] lt [of b2] lt [of b3] lt [of b4] lt [of b5] lt [of b6]
    by (simp add: unat_word_ariths up)
  have m: "(0xFF :: 32 word) = mask 8"
    by (simp add: mask_eq_exp_minus_1)
  have "unat (ucast (?S AND 0xFF) :: 8 word) = unat ?S mod 256"
    unfolding m
    by (simp only: unsigned_ucast_eq unsigned_take_bit_eq flip: take_bit_eq_mask)
       (simp add: take_bit_eq_mod)
  with S show ?thesis by simp
qed

lemma check_crc_verdict:
  "snd (tpms_protocol_ford_check_crc bo w) = (w \<noteq> 0 \<and> checksum_in_memory_order bo w)"
  by (simp add: tpms_protocol_ford_check_crc_def checksum_in_memory_order_def Let_def
      word_unat_eq_iff byte_sum_masked)

lemma check_crc_logs: "Callback \<notin> set (fst (tpms_protocol_ford_check_crc bo w))"
  by (simp add: tpms_protocol_ford_check_crc_def Let_def)

text \<open>
  The verdict depends on the byte order. The frame \<^verbatim>\<open>01020304645000BE\<close> carries the
  documented checksum (\<^verbatim>\<open>01+02+03+04+64+50+00 = BE\<close>). Where memory order is
  transmission order it passes; on a little-endian target, as the ARM core of the device
  is, \<^verbatim>\<open>b[7]\<close> is the byte received first, \<^verbatim>\<open>01\<close>, the sum runs over the other
  seven, and the frame is dropped.
\<close>

lemma ford_check_crc_byte_order:
  "checksum_in_transmission_order 0x01020304645000BE
   \<and> snd (tpms_protocol_ford_check_crc BigEndian 0x01020304645000BE)
   \<and> \<not> snd (tpms_protocol_ford_check_crc LittleEndian 0x01020304645000BE)"
  by (simp add: checksum_in_transmission_order_def frame_byte_def
      tpms_protocol_ford_check_crc_def byte_at_def)

section \<open>Completing a Ford frame\<close>

text \<open>
  The call of \<^verbatim>\<open>feed\<close> that brings the 64th bit: the decoder collects data, the edge is
  within tolerance, the Manchester machine has a bit, and 63 bits are in the register.
\<close>

lemma ford_feed_completes:
  assumes "parser_step (decoder s) = FordDecoderStepDecoderData"
      and "level_and_duration_to_event tpms_protocol_ford_const level d \<noteq> ManchesterEventReset"
      and "adv (manchester_saved_state s)
             (level_and_duration_to_event tpms_protocol_ford_const level d)
           = (True, ms, data_bit)"
      and "decode_count_bit (decoder s) = 63"
      and "frame = push_bit 1 (decode_data (decoder s)) OR (if data_bit then 0 else 1)"
  shows "tpms_protocol_decoder_ford_feed bo adv s level d =
           (if snd (tpms_protocol_ford_check_crc bo frame) then
              (LogFrame frame # fst (tpms_protocol_ford_check_crc bo frame)
                 @ (if callback (base s) then [Callback] else []),
               s\<lparr>decoder := (decoder s)\<lparr>parser_step := FordDecoderStepReset,
                              decode_data := frame, decode_count_bit := 64\<rparr>,
                 generic := tpms_protocol_ford_analyze
                              ((generic s)\<lparr>data := frame, data_count_bit := 64\<rparr>),
                 manchester_saved_state := ms\<rparr>)
            else
              (LogFrame frame # fst (tpms_protocol_ford_check_crc bo frame)
                 @ [LogCrcMismatchDrop],
               s\<lparr>decoder := (decoder s)\<lparr>parser_step := FordDecoderStepReset,
                              decode_data := frame, decode_count_bit := 64\<rparr>,
                 manchester_saved_state := ms\<rparr>))"
  using assms
  by (simp add: tpms_protocol_decoder_ford_feed_def ford_feed_switch_def Let_def
        subghz_protocol_blocks_add_bit_def tpms_protocol_ford_const_def case_prod_beta)

text \<open>
  Claim C10. If a completed 64-bit Ford frame fails the check, the stored generic record
  is left unchanged, so the fields \<^verbatim>\<open>get_string\<close> prints and the record
  \<^verbatim>\<open>serialize\<close> writes are those of the frame accepted before; the sink is not called,
  the base and the preamble counter keep their values, and the phase is reset to Idle.
\<close>

theorem ford_rejected_frame_keeps_record:
  assumes "parser_step (decoder s) = FordDecoderStepDecoderData"
      and "level_and_duration_to_event tpms_protocol_ford_const level d \<noteq> ManchesterEventReset"
      and "adv (manchester_saved_state s)
             (level_and_duration_to_event tpms_protocol_ford_const level d)
           = (True, ms, data_bit)"
      and "decode_count_bit (decoder s) = 63"
      and "\<not> snd (tpms_protocol_ford_check_crc bo
                  (push_bit 1 (decode_data (decoder s)) OR (if data_bit then 0 else 1)))"
  shows "let r = tpms_protocol_decoder_ford_feed bo adv s level d
         in generic (snd r) = generic s
          \<and> tpms_protocol_decoder_ford_get_string (snd r)
               = tpms_protocol_decoder_ford_get_string s
          \<and> parser_step (decoder (snd r)) = FordDecoderStepReset
          \<and> Callback \<notin> set (fst r)
          \<and> base (snd r) = base s
          \<and> header_count (snd r) = header_count s"
  using ford_feed_completes [where adv = adv and bo = bo, OF assms(1-4) refl] assms(5)
    check_crc_logs [of bo "push_bit 1 (decode_data (decoder s)) OR (if data_bit then 0 else 1)"]
  by (simp add: tpms_protocol_decoder_ford_get_string_def Let_def)

text \<open>
  The same 63 bits followed by a one give \<^verbatim>\<open>124C000064500013\<close>, which fails the check:
  the record of the earlier frame stays.
\<close>

theorem ford_rejected_frame_keeps_record_witness:
  "let r = tpms_protocol_decoder_ford_feed LittleEndian manchester_advance
             (ford_last_bit_pending 0x0926000032280009 ManchesterStateMid1 True) True 104
   in decode_data (decoder (snd r)) = 0x124C000064500013
    \<and> \<not> snd (tpms_protocol_ford_check_crc LittleEndian 0x124C000064500013)
    \<and> generic (snd r) = generic_earlier
    \<and> parser_step (decoder (snd r)) = FordDecoderStepReset
    \<and> Callback \<notin> set (fst r)"
  using ford_rejected_frame_keeps_record
      [where s = "ford_last_bit_pending 0x0926000032280009 ManchesterStateMid1 True"
         and level = True and d = 104 and adv = manchester_advance and bo = LittleEndian
         and ms = ManchesterStateMid0 and data_bit = False]
    ford_feed_completes
      [where s = "ford_last_bit_pending 0x0926000032280009 ManchesterStateMid1 True"
         and level = True and d = 104 and adv = manchester_advance and bo = LittleEndian
         and ms = ManchesterStateMid0 and data_bit = False, OF _ _ _ _ refl]
  by (simp add: ford_last_bit_pending_def ford_LongHigh manchester_advance_Mid1_LongHigh
      Let_def tpms_protocol_ford_check_crc_def byte_at_def)

section \<open>Ford field extraction\<close>

lemma low_byte: "(x :: 64 word) AND 0xFF = ucast (ucast x :: 8 word)"
proof -
  have m: "(0xFF :: 64 word) = mask 8"
    by (simp add: mask_eq_exp_minus_1)
  show ?thesis
    unfolding m by (rule bit_word_eqI) (auto simp: bit_simps)
qed

lemma unat_ucast_8_64: "unat (ucast (b :: 8 word) :: 64 word) = unat b"
  using unsigned_less [of b, where 'a = nat]
  by (simp add: unsigned_ucast_eq take_bit_nat_eq_self)

text \<open>
  In terms of the documented layout \<^verbatim>\<open>II II II II PP TT FF CC\<close>, the extractor computes
  the pressure from byte 6 (\<^verbatim>\<open>FF\<close>, bits 15..8) and the temperature from byte 4
  (\<^verbatim>\<open>PP\<close>, bits 31..24); the subtraction of 56 wraps around below 56.
\<close>

lemma ford_analyze_fields:
  "pressure (tpms_protocol_ford_analyze g)
     = of_nat (unat (frame_byte (data g) 6)) * (1 / 4) * (69 / 1000)
   \<and> temperature (tpms_protocol_ford_analyze g)
     = of_nat (unat ((ucast (frame_byte (data g) 4) :: 64 word) - 56))"
  by (simp add: tpms_protocol_ford_analyze_def frame_byte_def low_byte unat_ucast_8_64)

section \<open>Completing an SMD3MA4 frame\<close>

lemma SMD3MA4_feed_completes:
  assumes "parser_step (decoder s) = SMD3MA4DecoderStepDecoderData"
      and "level_and_duration_to_event tpms_protocol_SMD3MA4_const level d
           \<noteq> ManchesterEventReset"
      and "adv (manchester_saved_state s)
             (level_and_duration_to_event tpms_protocol_SMD3MA4_const level d)
           = (True, ms, data_bit)"
      and "decode_count_bit (decoder s) = 32"
      and "frame = push_bit 1 (decode_data (decoder s)) OR (if data_bit then 0 else 1)"
  shows "tpms_protocol_decoder_SMD3MA4_feed adv s level d =
           (LogFrame frame # (if callback (base s) then [Callback] else []),
            s\<lparr>decoder := (decoder s)\<lparr>parser_step := SMD3MA4DecoderStepReset,
                              decode_data := frame, decode_count_bit := 33\<rparr>,
              generic := tpms_protocol_SMD3MA4_analyze
                           ((generic s)\<lparr>data := frame, data_count_bit := 33\<rparr>),
              manchester_saved_state := ms\<rparr>)"
  using assms
  by (simp add: tpms_protocol_decoder_SMD3MA4_feed_def SMD3MA4_feed_switch_def Let_def
        subghz_protocol_blocks_add_bit_def tpms_protocol_SMD3MA4_const_def)

text \<open>
  Claim C9. Every SMD3MA4 frame that completes at 33 bits is accepted, whatever its
  bits: the register and the count are stored in the record, the record is analysed, the
  sink is called exactly once when one is registered (and not at all otherwise), and the
  phase returns to Idle. No check stands before the acceptance.
\<close>

theorem SMD3MA4_frame_always_accepted:
  assumes "parser_step (decoder s) = SMD3MA4DecoderStepDecoderData"
      and "level_and_duration_to_event tpms_protocol_SMD3MA4_const level d
           \<noteq> ManchesterEventReset"
      and "adv (manchester_saved_state s)
             (level_and_duration_to_event tpms_protocol_SMD3MA4_const level d)
           = (True, ms, data_bit)"
      and "decode_count_bit (decoder s) = 32"
  shows "let frame = push_bit 1 (decode_data (decoder s)) OR (if data_bit then 0 else 1);
             r = tpms_protocol_decoder_SMD3MA4_feed adv s level d
         in count_list (fst r) Callback = (if callback (base s) then 1 else 0)
          \<and> generic (snd r) =
               tpms_protocol_SMD3MA4_analyze
                 ((generic s)\<lparr>data := frame, data_count_bit := 33\<rparr>)
          \<and> data (generic (snd r)) = frame
          \<and> data_count_bit (generic (snd r)) = 33
          \<and> parser_step (decoder (snd r)) = SMD3MA4DecoderStepReset"
  using SMD3MA4_feed_completes [where adv = adv, OF assms refl]
  by (simp add: Let_def tpms_protocol_SMD3MA4_analyze_def)

theorem SMD3MA4_frame_always_accepted_witness:
  "let r = tpms_protocol_decoder_SMD3MA4_feed manchester_advance
             (SMD3MA4_last_bit_pending ManchesterStateMid0 True) False 240
   in count_list (fst r) Callback = 1
    \<and> data (generic (snd r)) = 0x131C11D6
    \<and> data_count_bit (generic (snd r)) = 33
    \<and> parser_step (decoder (snd r)) = SMD3MA4DecoderStepReset"
  using SMD3MA4_frame_always_accepted
      [where s = "SMD3MA4_last_bit_pending ManchesterStateMid0 True"
         and level = False and d = 240 and adv = manchester_advance
         and ms = ManchesterStateMid1 and data_bit = True]
  by (simp add: SMD3MA4_last_bit_pending_def SMD3MA4_LongLow manchester_advance_Mid0_LongLow
      Let_def tpms_protocol_SMD3MA4_analyze_def)

section \<open>SMD3MA4 field extraction\<close>

text \<open>
  Claim C3 does not hold of the code. The SMD3MA4 frame carries no temperature, yet the
  extractor stores bits 13..6 of the frame as the temperature: the frame decoded from the
  example edges gives 85, and three other frames give 255, 1 and 0. No value marks the
  field as unavailable.
\<close>

theorem SMD3MA4_analyze_temperature_from_bits:
  "temperature (generic (snd (tpms_protocol_decoder_SMD3MA4_feed manchester_advance
      (SMD3MA4_run manchester_advance (tpms_protocol_decoder_SMD3MA4_alloc SMD3MA4_zeroed)
         SMD3MA4_example_edges) True 240))) = 85
   \<and> temperature (tpms_protocol_SMD3MA4_analyze
      (generic_zeroed\<lparr>data := 0x3FC0, data_count_bit := 33\<rparr>)) = 255
   \<and> temperature (tpms_protocol_SMD3MA4_analyze
      (generic_zeroed\<lparr>data := 0x40, data_count_bit := 33\<rparr>)) = 1
   \<and> temperature (tpms_protocol_SMD3MA4_analyze
      (generic_zeroed\<lparr>data := 0, data_count_bit := 33\<rparr>)) = 0"
  by (simp add: SMD3MA4_example_last_bit tpms_protocol_SMD3MA4_analyze_def)

section \<open>The preamble counter at the sync gap\<close>

text \<open>In Idle the Ford decoder never writes the preamble counter.\<close>

lemma ford_idle_keeps_header_count:
  "parser_step (decoder s) = FordDecoderStepReset
     \<Longrightarrow> header_count (snd (tpms_protocol_decoder_ford_feed bo adv s level d)) = header_count s"
  by (simp add: tpms_protocol_decoder_ford_feed_def ford_feed_switch_def)

section \<open>The Ford decoder under the firmware's Manchester machine\<close>

text \<open>
  With the Ford constants the short window lies inside the long window, and the long
  window is tested first: the classifier never returns a short event.
\<close>

lemma ford_never_short:
  "level_and_duration_to_event tpms_protocol_ford_const level d = ManchesterEventReset
   \<or> level_and_duration_to_event tpms_protocol_ford_const level d
       = (if level then ManchesterEventLongHigh else ManchesterEventLongLow)"
proof -
  have "0 \<le> uint d"
    by simp
  then have "\<bar>uint d - 52\<bar> < 150 \<Longrightarrow> \<bar>uint d - 104\<bar> < 150"
    by arith
  then show ?thesis
    by (auto simp: level_and_duration_to_event_def tpms_protocol_ford_const_def word_less_def
        DURATION_DIFF_abs)
qed

lemma manchester_advance_long_from_start:
  "manchester_advance ManchesterStateStart1 ManchesterEventLongLow
     = (False, ManchesterStateMid1, False)"
  "manchester_advance ManchesterStateStart1 ManchesterEventLongHigh
     = (False, ManchesterStateMid1, False)"
  "manchester_advance ManchesterStateMid1 ManchesterEventLongLow
     = (False, ManchesterStateMid1, False)"
  "manchester_advance ManchesterStateMid1 ManchesterEventLongHigh
     = (True, ManchesterStateMid0, False)"
  by code_simp+

lemma ford_switch_idle:
  assumes "parser_step (decoder s) = FordDecoderStepReset"
  shows "ford_preamble_inv (snd (ford_feed_switch bo s b level d))
       \<and> header_count (snd (ford_feed_switch bo s b level d)) = header_count s
       \<and> generic (snd (ford_feed_switch bo s b level d)) = generic s
       \<and> base (snd (ford_feed_switch bo s b level d)) = base s
       \<and> fst (ford_feed_switch bo s b level d) = []"
  using assms by (simp add: ford_preamble_inv_def ford_feed_switch_def)

lemma ford_feed_preamble_inv:
  assumes "ford_preamble_inv s"
  shows "ford_preamble_inv (snd (tpms_protocol_decoder_ford_feed bo manchester_advance s level d))
       \<and> header_count (snd (tpms_protocol_decoder_ford_feed bo manchester_advance s level d))
           = header_count s
       \<and> generic (snd (tpms_protocol_decoder_ford_feed bo manchester_advance s level d))
           = generic s
       \<and> base (snd (tpms_protocol_decoder_ford_feed bo manchester_advance s level d))
           = base s
       \<and> fst (tpms_protocol_decoder_ford_feed bo manchester_advance s level d) = []"
proof (cases "parser_step (decoder s) = FordDecoderStepReset")
  case True
  then show ?thesis
    using ford_switch_idle [of s bo False level d]
    by (simp add: tpms_protocol_decoder_ford_feed_def)
next
  case False
  with assms have p: "parser_step (decoder s) = FordDecoderStepCheckPreamble"
    and m: "manchester_saved_state s = ManchesterStateStart1
            \<or> manchester_saved_state s = ManchesterStateMid1"
    by (auto simp: ford_preamble_inv_def)
  show ?thesis
  proof (cases "level_and_duration_to_event tpms_protocol_ford_const level d
                  = ManchesterEventReset")
    case True
    then show ?thesis
      using p ford_switch_idle
          [of "s\<lparr>decoder := (decoder s)\<lparr>parser_step := FordDecoderStepReset\<rparr>\<rparr>"
              bo False level d]
      by (simp add: tpms_protocol_decoder_ford_feed_def case_prod_beta)
  next
    case False
    with ford_never_short [of level d]
    have e: "level_and_duration_to_event tpms_protocol_ford_const level d
               = (if level then ManchesterEventLongHigh else ManchesterEventLongLow)"
      by simp
    show ?thesis
      using p m e
      by (cases level)
         (auto simp: tpms_protocol_decoder_ford_feed_def ford_feed_switch_def
            ford_preamble_inv_def manchester_advance_long_from_start)
  qed
qed

lemma ford_run_preamble_inv:
  assumes "ford_preamble_inv s"
  shows "ford_preamble_inv (ford_run bo manchester_advance s calls)
       \<and> header_count (ford_run bo manchester_advance s calls) = header_count s
       \<and> generic (ford_run bo manchester_advance s calls) = generic s
       \<and> base (ford_run bo manchester_advance s calls) = base s"
  using assms unfolding ford_run_def
proof (induction calls arbitrary: s)
  case Nil
  then show ?case by simp
next
  case (Cons c calls)
  have "ford_preamble_inv (ford_call bo manchester_advance s c)
        \<and> header_count (ford_call bo manchester_advance s c) = header_count s
        \<and> generic (ford_call bo manchester_advance s c) = generic s
        \<and> base (ford_call bo manchester_advance s c) = base s"
  proof (cases c)
    case (Feed level d)
    then show ?thesis
      using ford_feed_preamble_inv [OF Cons.prems, of bo level d] by simp
  next
    case Reset
    then show ?thesis
      by (simp add: ford_preamble_inv_def tpms_protocol_decoder_ford_reset_def)
  qed
  then show ?case
    using Cons.IH [of "ford_call bo manchester_advance s c"] by simp
qed

text \<open>
  From an idle Ford decoder, whatever the calls: the data phase is never entered, the
  stored record and the preamble counter keep their values, and \<^verbatim>\<open>feed\<close> logs nothing
  and calls no callback. Only long events arrive; from the start state the machine
  yields its first bit on a long high edge, the bit is a one after inversion, and the
  preamble check fails on it.
\<close>

lemma ford_never_collects:
  assumes "parser_step (decoder f0) = FordDecoderStepReset"
  shows "parser_step (decoder (ford_run bo manchester_advance f0 calls))
           \<noteq> FordDecoderStepDecoderData
       \<and> generic (ford_run bo manchester_advance f0 calls) = generic f0
       \<and> header_count (ford_run bo manchester_advance f0 calls) = header_count f0
       \<and> fst (tpms_protocol_decoder_ford_feed bo manchester_advance
                (ford_run bo manchester_advance f0 calls) level d) = []"
proof -
  have i: "ford_preamble_inv f0"
    using assms by (simp add: ford_preamble_inv_def)
  have r: "ford_preamble_inv (ford_run bo manchester_advance f0 calls)"
    using ford_run_preamble_inv [OF i, of bo calls] by simp
  then have "parser_step (decoder (ford_run bo manchester_advance f0 calls))
               \<noteq> FordDecoderStepDecoderData"
    by (auto simp: ford_preamble_inv_def)
  then show ?thesis
    using ford_run_preamble_inv [OF i, of bo calls] ford_feed_preamble_inv [OF r, of bo level d]
    by simp
qed



section \<open>The bit count over a run\<close>

lemma word8_inc:
  "(c :: 8 word) < 64 \<Longrightarrow> c + 1 \<le> 64 \<and> (c + 1 \<noteq> 64 \<longrightarrow> c + 1 < 64)"
  by unat_arith

lemma count_63_plus_1: "(c :: 8 word) + 1 = 64 \<longleftrightarrow> c = 63"
proof
  assume "c + 1 = 64"
  then have "c + 1 - 1 = 64 - 1" by simp
  then show "c = 63" by simp
qed simp

lemma ford_switch_inv:
  "ford_count_inv s \<Longrightarrow> ford_count_inv (snd (ford_feed_switch bo s b level d))"
  using word8_inc [of "decode_count_bit (decoder s)"]
  by (cases "parser_step (decoder s)")
     (auto simp: ford_count_inv_def ford_feed_switch_def Let_def case_prod_beta
        subghz_protocol_blocks_add_bit_def tpms_protocol_ford_const_def)

lemma ford_feed_inv:
  "ford_count_inv s \<Longrightarrow> ford_count_inv (snd (tpms_protocol_decoder_ford_feed bo adv s level d))"
proof -
  assume i: "ford_count_inv s"
  have r: "ford_count_inv (s\<lparr>decoder := (decoder s)\<lparr>parser_step := FordDecoderStepReset\<rparr>\<rparr>)"
    using i by (simp add: ford_count_inv_def)
  have m: "ford_count_inv (s\<lparr>manchester_saved_state := ms\<rparr>)" for ms
    using i by (simp add: ford_count_inv_def)
  show ?thesis
    using ford_switch_inv [OF i] ford_switch_inv [OF r] ford_switch_inv [OF m] m
    by (simp add: tpms_protocol_decoder_ford_feed_def Let_def case_prod_beta)
qed

lemma ford_run_inv:
  "ford_count_inv s \<Longrightarrow> ford_count_inv (ford_run bo adv s calls)"
  unfolding ford_run_def
proof (induction calls arbitrary: s)
  case Nil
  then show ?case by simp
next
  case (Cons c calls)
  have "ford_count_inv (ford_call bo adv s c)"
    using Cons.prems
    by (cases c) (simp_all add: ford_feed_inv, simp add: ford_count_inv_def tpms_protocol_decoder_ford_reset_def)
  then show ?case using Cons.IH by simp
qed

lemma ford_switch_validation:
  "(\<exists>w. LogFrame w \<in> set (fst (ford_feed_switch bo s b level d)))
     = (decode_count_bit (decoder s) = 63
        \<and> decode_count_bit (decoder (snd (ford_feed_switch bo s b level d))) = 64)"
  by (cases "parser_step (decoder s)")
     (auto simp: ford_feed_switch_def Let_def case_prod_beta count_63_plus_1
        subghz_protocol_blocks_add_bit_def tpms_protocol_ford_const_def)

lemma ford_switch_validation_idle:
  "LogFrame w \<in> set (fst (ford_feed_switch bo s b level d))
     \<Longrightarrow> parser_step (decoder (snd (ford_feed_switch bo s b level d))) = FordDecoderStepReset"
  by (cases "parser_step (decoder s)")
     (auto simp: ford_feed_switch_def Let_def case_prod_beta
        subghz_protocol_blocks_add_bit_def tpms_protocol_ford_const_def split: if_splits)

lemma ford_feed_validation:
  "(\<exists>w. LogFrame w \<in> set (fst (tpms_protocol_decoder_ford_feed bo adv s level d)))
     = (decode_count_bit (decoder s) = 63
        \<and> decode_count_bit (decoder (snd (tpms_protocol_decoder_ford_feed bo adv s level d))) = 64)"
  using ford_switch_validation [of bo s False level d]
    ford_switch_validation [of bo "s\<lparr>decoder := (decoder s)\<lparr>parser_step := FordDecoderStepReset\<rparr>\<rparr>" False level d]
    ford_switch_validation [of bo "s\<lparr>manchester_saved_state := fst (snd (adv (manchester_saved_state s)
        (level_and_duration_to_event tpms_protocol_ford_const level d)))\<rparr>"
        "\<not> snd (snd (adv (manchester_saved_state s)
        (level_and_duration_to_event tpms_protocol_ford_const level d)))" level d]
  by (simp add: tpms_protocol_decoder_ford_feed_def Let_def case_prod_beta)

lemma ford_feed_validation_idle:
  "LogFrame w \<in> set (fst (tpms_protocol_decoder_ford_feed bo adv s level d))
     \<Longrightarrow> parser_step (decoder (snd (tpms_protocol_decoder_ford_feed bo adv s level d)))
           = FordDecoderStepReset"
  using ford_switch_validation_idle [of w bo s False level d]
    ford_switch_validation_idle [of w bo "s\<lparr>decoder := (decoder s)\<lparr>parser_step := FordDecoderStepReset\<rparr>\<rparr>" False level d]
    ford_switch_validation_idle [of w bo "s\<lparr>manchester_saved_state := fst (snd (adv (manchester_saved_state s)
        (level_and_duration_to_event tpms_protocol_ford_const level d)))\<rparr>"
        "\<not> snd (snd (adv (manchester_saved_state s)
        (level_and_duration_to_event tpms_protocol_ford_const level d)))" level d]
  by (auto simp: tpms_protocol_decoder_ford_feed_def Let_def case_prod_beta split: if_splits)


lemma word8_inc33:
  "(c :: 8 word) < 33 \<Longrightarrow> c + 1 \<le> 33 \<and> (c + 1 \<noteq> 33 \<longrightarrow> c + 1 < 33)"
  by unat_arith

lemma count_32_plus_1: "(c :: 8 word) + 1 = 33 \<longleftrightarrow> c = 32"
proof
  assume "c + 1 = 33"
  then have "c + 1 - 1 = 33 - 1" by simp
  then show "c = 32" by simp
qed simp

lemma SMD3MA4_switch_inv:
  "SMD3MA4_count_inv s \<Longrightarrow> SMD3MA4_count_inv (snd (SMD3MA4_feed_switch s b level d))"
  using word8_inc33 [of "decode_count_bit (decoder s)"]
  by (cases "parser_step (decoder s)")
     (auto simp: SMD3MA4_count_inv_def SMD3MA4_feed_switch_def Let_def case_prod_beta
        subghz_protocol_blocks_add_bit_def tpms_protocol_SMD3MA4_const_def)

lemma SMD3MA4_feed_inv:
  "SMD3MA4_count_inv s \<Longrightarrow> SMD3MA4_count_inv (snd (tpms_protocol_decoder_SMD3MA4_feed adv s level d))"
proof -
  assume i: "SMD3MA4_count_inv s"
  have r: "SMD3MA4_count_inv (s\<lparr>decoder := (decoder s)\<lparr>parser_step := SMD3MA4DecoderStepReset\<rparr>\<rparr>)"
    using i by (simp add: SMD3MA4_count_inv_def)
  have m: "SMD3MA4_count_inv (s\<lparr>manchester_saved_state := ms\<rparr>)" for ms
    using i by (simp add: SMD3MA4_count_inv_def)
  show ?thesis
    using SMD3MA4_switch_inv [OF i] SMD3MA4_switch_inv [OF r] SMD3MA4_switch_inv [OF m] m
    by (simp add: tpms_protocol_decoder_SMD3MA4_feed_def Let_def case_prod_beta)
qed

lemma SMD3MA4_run_inv:
  "SMD3MA4_count_inv s \<Longrightarrow> SMD3MA4_count_inv (SMD3MA4_run adv s calls)"
  unfolding SMD3MA4_run_def
proof (induction calls arbitrary: s)
  case Nil
  then show ?case by simp
next
  case (Cons c calls)
  have "SMD3MA4_count_inv (SMD3MA4_call adv s c)"
    using Cons.prems
    by (cases c) (simp_all add: SMD3MA4_feed_inv, simp add: SMD3MA4_count_inv_def tpms_protocol_decoder_SMD3MA4_reset_def)
  then show ?case using Cons.IH by simp
qed


lemma SMD3MA4_switch_validation:
  "(\<exists>w. LogFrame w \<in> set (fst (SMD3MA4_feed_switch s b level d)))
     = (decode_count_bit (decoder s) = 32
        \<and> decode_count_bit (decoder (snd (SMD3MA4_feed_switch s b level d))) = 33)"
  by (cases "parser_step (decoder s)")
     (auto simp: SMD3MA4_feed_switch_def Let_def case_prod_beta count_32_plus_1
        subghz_protocol_blocks_add_bit_def tpms_protocol_SMD3MA4_const_def)

lemma SMD3MA4_switch_validation_idle:
  "LogFrame w \<in> set (fst (SMD3MA4_feed_switch s b level d))
     \<Longrightarrow> parser_step (decoder (snd (SMD3MA4_feed_switch s b level d))) = SMD3MA4DecoderStepReset"
  by (cases "parser_step (decoder s)")
     (auto simp: SMD3MA4_feed_switch_def Let_def case_prod_beta
        subghz_protocol_blocks_add_bit_def tpms_protocol_SMD3MA4_const_def split: if_splits)

lemma SMD3MA4_feed_validation:
  "(\<exists>w. LogFrame w \<in> set (fst (tpms_protocol_decoder_SMD3MA4_feed adv s level d)))
     = (decode_count_bit (decoder s) = 32
        \<and> decode_count_bit (decoder (snd (tpms_protocol_decoder_SMD3MA4_feed adv s level d))) = 33)"
  using SMD3MA4_switch_validation [of s False level d]
    SMD3MA4_switch_validation [of "s\<lparr>decoder := (decoder s)\<lparr>parser_step := SMD3MA4DecoderStepReset\<rparr>\<rparr>" False level d]
    SMD3MA4_switch_validation [of "s\<lparr>manchester_saved_state := fst (snd (adv (manchester_saved_state s)
        (level_and_duration_to_event tpms_protocol_SMD3MA4_const level d)))\<rparr>"
        "\<not> snd (snd (adv (manchester_saved_state s)
        (level_and_duration_to_event tpms_protocol_SMD3MA4_const level d)))" level d]
  by (simp add: tpms_protocol_decoder_SMD3MA4_feed_def Let_def case_prod_beta)

lemma SMD3MA4_feed_validation_idle:
  "LogFrame w \<in> set (fst (tpms_protocol_decoder_SMD3MA4_feed adv s level d))
     \<Longrightarrow> parser_step (decoder (snd (tpms_protocol_decoder_SMD3MA4_feed adv s level d)))
           = SMD3MA4DecoderStepReset"
  using SMD3MA4_switch_validation_idle [of w s False level d]
    SMD3MA4_switch_validation_idle [of w "s\<lparr>decoder := (decoder s)\<lparr>parser_step := SMD3MA4DecoderStepReset\<rparr>\<rparr>" False level d]
    SMD3MA4_switch_validation_idle [of w "s\<lparr>manchester_saved_state := fst (snd (adv (manchester_saved_state s)
        (level_and_duration_to_event tpms_protocol_SMD3MA4_const level d)))\<rparr>"
        "\<not> snd (snd (adv (manchester_saved_state s)
        (level_and_duration_to_event tpms_protocol_SMD3MA4_const level d)))" level d]
  by (auto simp: tpms_protocol_decoder_SMD3MA4_feed_def Let_def case_prod_beta split: if_splits)

text \<open>
  Claim C8. Take a decoder that is idle with a bit count within the frame length (a
  freshly allocated, zero-filled instance is one) and let it receive any sequence of
  \<^verbatim>\<open>feed\<close> and \<^verbatim>\<open>reset\<close> calls. In the state reached the bit count does not
  exceed the frame length (64 for Ford, 33 for SMD3MA4) and is strictly below it while
  data is collected. A further call of \<^verbatim>\<open>feed\<close> handles a completed frame (the line
  logging the frame, followed by validation for Ford and by acceptance for SMD3MA4)
  exactly when that call brings the bit count to the frame length, and whenever it does
  so the phase is Idle afterwards.
\<close>

theorem bit_count_bounded_and_sole_trigger:
  assumes "parser_step (decoder f0) = FordDecoderStepReset"
      and "decode_count_bit (decoder f0) \<le> 64"
      and "parser_step (decoder m0) = SMD3MA4DecoderStepReset"
      and "decode_count_bit (decoder m0) \<le> 33"
  shows "let f = ford_run bo adv f0 fcalls;
             rf = tpms_protocol_decoder_ford_feed bo adv f level d;
             m = SMD3MA4_run adv m0 mcalls;
             rm = tpms_protocol_decoder_SMD3MA4_feed adv m level d
         in decode_count_bit (decoder f) \<le> 64
          \<and> (parser_step (decoder f) = FordDecoderStepDecoderData
               \<longrightarrow> decode_count_bit (decoder f) < 64)
          \<and> ((\<exists>w. LogFrame w \<in> set (fst rf))
               = (decode_count_bit (decoder f) = 63 \<and> decode_count_bit (decoder (snd rf)) = 64))
          \<and> ((\<exists>w. LogFrame w \<in> set (fst rf))
               \<longrightarrow> parser_step (decoder (snd rf)) = FordDecoderStepReset)
          \<and> decode_count_bit (decoder m) \<le> 33
          \<and> (parser_step (decoder m) = SMD3MA4DecoderStepDecoderData
               \<longrightarrow> decode_count_bit (decoder m) < 33)
          \<and> ((\<exists>w. LogFrame w \<in> set (fst rm))
               = (decode_count_bit (decoder m) = 32 \<and> decode_count_bit (decoder (snd rm)) = 33))
          \<and> ((\<exists>w. LogFrame w \<in> set (fst rm))
               \<longrightarrow> parser_step (decoder (snd rm)) = SMD3MA4DecoderStepReset)"
proof -
  have "ford_count_inv f0"
    using assms(1,2) by (simp add: ford_count_inv_def)
  then have f: "ford_count_inv (ford_run bo adv f0 fcalls)"
    by (rule ford_run_inv)
  have "SMD3MA4_count_inv m0"
    using assms(3,4) by (simp add: SMD3MA4_count_inv_def)
  then have m: "SMD3MA4_count_inv (SMD3MA4_run adv m0 mcalls)"
    by (rule SMD3MA4_run_inv)
  show ?thesis
    unfolding Let_def
    using f m
      ford_feed_validation [of bo adv "ford_run bo adv f0 fcalls" level d]
      ford_feed_validation_idle [of _ bo adv "ford_run bo adv f0 fcalls" level d]
      SMD3MA4_feed_validation [of adv "SMD3MA4_run adv m0 mcalls" level d]
      SMD3MA4_feed_validation_idle [of _ adv "SMD3MA4_run adv m0 mcalls" level d]
    by (auto simp: ford_count_inv_def SMD3MA4_count_inv_def)
qed

text \<open>
  A fresh Ford decoder after the sync gap, and a fresh SMD3MA4 decoder after the sync
  pulse, the preamble and 32 data bits: the next long high edge brings the 33rd bit, the
  frame \<^verbatim>\<open>155555555\<close> is handled and the decoder is idle again.
\<close>

theorem bit_count_bounded_and_sole_trigger_witness:
  "parser_step (decoder (tpms_protocol_decoder_ford_alloc ford_zeroed)) = FordDecoderStepReset
   \<and> decode_count_bit (decoder (tpms_protocol_decoder_ford_alloc ford_zeroed)) \<le> 64
   \<and> parser_step (decoder (tpms_protocol_decoder_SMD3MA4_alloc SMD3MA4_zeroed))
        = SMD3MA4DecoderStepReset
   \<and> decode_count_bit (decoder (tpms_protocol_decoder_SMD3MA4_alloc SMD3MA4_zeroed)) \<le> 33
   \<and> decode_count_bit (decoder (ford_run LittleEndian manchester_advance
        (tpms_protocol_decoder_ford_alloc ford_zeroed) [Feed False 208])) \<le> 64
   \<and> decode_count_bit (decoder (SMD3MA4_run manchester_advance
        (tpms_protocol_decoder_SMD3MA4_alloc SMD3MA4_zeroed) SMD3MA4_example_edges)) = 32
   \<and> LogFrame 0x155555555 \<in> set (fst (tpms_protocol_decoder_SMD3MA4_feed manchester_advance
        (SMD3MA4_run manchester_advance (tpms_protocol_decoder_SMD3MA4_alloc SMD3MA4_zeroed)
           SMD3MA4_example_edges) True 240))
   \<and> decode_count_bit (decoder (snd (tpms_protocol_decoder_SMD3MA4_feed manchester_advance
        (SMD3MA4_run manchester_advance (tpms_protocol_decoder_SMD3MA4_alloc SMD3MA4_zeroed)
           SMD3MA4_example_edges) True 240))) = 33
   \<and> parser_step (decoder (snd (tpms_protocol_decoder_SMD3MA4_feed manchester_advance
        (SMD3MA4_run manchester_advance (tpms_protocol_decoder_SMD3MA4_alloc SMD3MA4_zeroed)
           SMD3MA4_example_edges) True 240))) = SMD3MA4DecoderStepReset"
proof -
  have f1: "parser_step (decoder (tpms_protocol_decoder_ford_alloc ford_zeroed))
              = FordDecoderStepReset"
    by (simp add: tpms_protocol_decoder_ford_alloc_def ford_zeroed_def)
  have f2: "decode_count_bit (decoder (tpms_protocol_decoder_ford_alloc ford_zeroed)) \<le> 64"
    by (simp add: tpms_protocol_decoder_ford_alloc_def ford_zeroed_def)
  have m1: "parser_step (decoder (tpms_protocol_decoder_SMD3MA4_alloc SMD3MA4_zeroed))
              = SMD3MA4DecoderStepReset"
    by (simp add: tpms_protocol_decoder_SMD3MA4_alloc_def SMD3MA4_zeroed_def)
  have m2: "decode_count_bit (decoder (tpms_protocol_decoder_SMD3MA4_alloc SMD3MA4_zeroed))
              \<le> 33"
    by (simp add: tpms_protocol_decoder_SMD3MA4_alloc_def SMD3MA4_zeroed_def)
  note t = bit_count_bounded_and_sole_trigger
        [where bo = LittleEndian and adv = manchester_advance
           and fcalls = "[Feed False 208]" and mcalls = SMD3MA4_example_edges
           and level = True and d = 240, OF f1 f2 m1 m2, unfolded Let_def]
  have l: "LogFrame 0x155555555
      \<in> set (fst (tpms_protocol_decoder_SMD3MA4_feed manchester_advance
        (SMD3MA4_run manchester_advance (tpms_protocol_decoder_SMD3MA4_alloc SMD3MA4_zeroed)
           SMD3MA4_example_edges) True 240))"
    by (subst SMD3MA4_example_last_bit) simp
  have "decode_count_bit (decoder (ford_run LittleEndian manchester_advance
           (tpms_protocol_decoder_ford_alloc ford_zeroed) [Feed False 208])) \<le> 64"
    using t by blast
  moreover have "decode_count_bit (decoder (SMD3MA4_run manchester_advance
      (tpms_protocol_decoder_SMD3MA4_alloc SMD3MA4_zeroed) SMD3MA4_example_edges)) = 32"
    using t l by blast
  moreover have "decode_count_bit (decoder (snd (tpms_protocol_decoder_SMD3MA4_feed
      manchester_advance
        (SMD3MA4_run manchester_advance (tpms_protocol_decoder_SMD3MA4_alloc SMD3MA4_zeroed)
           SMD3MA4_example_edges) True 240))) = 33"
    using t l by blast
  moreover have "parser_step (decoder (snd (tpms_protocol_decoder_SMD3MA4_feed
      manchester_advance
        (SMD3MA4_run manchester_advance (tpms_protocol_decoder_SMD3MA4_alloc SMD3MA4_zeroed)
           SMD3MA4_example_edges) True 240))) = SMD3MA4DecoderStepReset"
    using t l by blast
  ultimately show ?thesis
    using f1 f2 m1 m2 l by blast
qed

end
